theory Spec2Isabelle
  imports Complex_Main "HOL-Library.Sublist"
begin

section \<open>Python values used by the two adapters\<close>

text \<open>
  Exceptions are values. The constructors are the exception classes the two source files
  can raise themselves (\<open>Exception\<close>, \<open>ValueError\<close>), the ones the Python run time
  raises on their behalf (\<open>IndexError\<close> of a list subscript, \<open>AttributeError\<close> of an
  attribute that holds no object), and \<open>External\<close> for whatever an external collaborator
  raises (the OpenAI client, the vector database, langdetect, transformers).
  Strings are lists of characters with code points below 256 (a \<open>char\<close> is its code
  point); floats are never computed with and are carried as reals.
\<close>

datatype py_error =
    PyException string
  | ValueError string
  | IndexError
  | AttributeError
  | External string

text \<open>Truthiness, as \<open>not x\<close> and \<open>x or y\<close> see it.\<close>

definition truthy_int :: "int \<Rightarrow> bool" where
  "truthy_int n = (n \<noteq> 0)"

definition truthy_str :: "string \<Rightarrow> bool" where
  "truthy_str s = (s \<noteq> [])"

fun truthy_opt_int :: "int option \<Rightarrow> bool" where
  "truthy_opt_int None = False"
| "truthy_opt_int (Some n) = truthy_int n"

fun truthy_opt_str :: "string option \<Rightarrow> bool" where
  "truthy_opt_str None = False"
| "truthy_opt_str (Some s) = truthy_str s"

text \<open>\<open>xs[i]\<close>: a negative subscript counts from the end, anything else outside the list
  raises \<open>IndexError\<close>.\<close>

definition getitem :: "'a list \<Rightarrow> int \<Rightarrow> py_error + 'a" where
  "getitem xs i =
     (if 0 \<le> i \<and> i < int (length xs) then Inr (xs ! nat i)
      else if i < 0 \<and> - int (length xs) \<le> i then Inr (xs ! nat (int (length xs) + i))
      else Inl IndexError)"

text \<open>\<open>s.startswith(p)\<close>.\<close>

definition startswith :: "string \<Rightarrow> string \<Rightarrow> bool" where
  "startswith s p = prefix p s"

text \<open>\<open>sep.join(xs)\<close>.\<close>

fun str_join :: "string \<Rightarrow> string list \<Rightarrow> string" where
  "str_join sep [] = []"
| "str_join sep [x] = x"
| "str_join sep (x # y # ys) = x @ sep @ str_join sep (y # ys)"

text \<open>
  \<open>s.split(sep)\<close>: the text is scanned from the left; wherever the separator starts, the
  piece collected so far is closed and the scan goes on behind the separator. An empty
  separator raises \<open>ValueError\<close>.
\<close>

function split_from :: "string \<Rightarrow> string \<Rightarrow> string \<Rightarrow> string list" where
  "split_from sep acc [] = [rev acc]"
| "split_from sep acc (c # cs) =
     (if sep \<noteq> [] \<and> prefix sep (c # cs)
      then rev acc # split_from sep [] (drop (length sep) (c # cs))
      else split_from sep (c # acc) cs)"
  by pat_completeness auto
termination
  by (relation "measure (\<lambda>(sep, acc, s). length s)") auto

definition str_split :: "string \<Rightarrow> string \<Rightarrow> py_error + string list" where
  "str_split s sep =
     (if sep = [] then Inl (ValueError ''empty separator'') else Inr (split_from sep [] s))"

text \<open>\<open>s.strip()\<close> removes, at both ends, the characters for which \<open>str.isspace\<close>
  holds. Below 256 these are tab, line feed, vertical tab, form feed, carriage return
  (9 to 13), the four separators 0x1C to 0x1F, the space, next line (0x85) and the
  no-break space (0xA0).\<close>

definition isspace :: "char \<Rightarrow> bool" where
  "isspace c =
     (let n = (of_char c :: nat)
      in (9 \<le> n \<and> n \<le> 13) \<or> (28 \<le> n \<and> n \<le> 32) \<or> n = 133 \<or> n = 160)"

definition str_strip :: "string \<Rightarrow> string" where
  "str_strip s = rev (dropWhile isspace (rev (dropWhile isspace s)))"

text \<open>
  "Trimmed of surrounding whitespace", in the words of the specification and without
  reference to the two definitions above: \<open>r\<close> is \<open>s\<close> trimmed when \<open>s\<close> is \<open>r\<close> with
  nothing but whitespace before and after it, and \<open>r\<close> neither starts nor ends with
  whitespace. The whitespace characters are listed by code point.
\<close>

definition whitespace_codes :: "nat set" where
  "whitespace_codes = {9, 10, 11, 12, 13, 28, 29, 30, 31, 32, 133, 160}"

definition trimmed_of :: "string \<Rightarrow> string \<Rightarrow> bool" where
  "trimmed_of r s =
     (\<exists>l t. s = l @ r @ t
        \<and> (\<forall>c\<in>set l. (of_char c :: nat) \<in> whitespace_codes)
        \<and> (\<forall>c\<in>set t. (of_char c :: nat) \<in> whitespace_codes)
        \<and> (r = [] \<or> ((of_char (hd r) :: nat) \<notin> whitespace_codes
                      \<and> (of_char (last r) :: nat) \<notin> whitespace_codes)))"

section \<open>The world outside the adapters\<close>

text \<open>
  Every call that leaves the adapter (network, model loading, the vector database, the
  language detector) is appended to a trace, so that "no call was made" is a statement
  about the trace. \<open>openai_api_key\<close> is the module-level \<open>openai.api_key\<close>.
\<close>

datatype dtype = Float16 | Float32

record model_params =
  text_inputs :: string
  max_new_tokens :: int
  do_sample :: bool
  mp_temperature :: real
  mp_top_k :: int
  top_p :: real
  num_return_sequences :: int
  mp_eos_token_id :: "int option"

datatype event =
    OpenAIClientInit string
  | EmbeddingsCreate "string list" string
  | DbEmbed "real list list"
  | DbSearch "real list list" int
  | TokenizerFromPretrained string "string option"
  | ModelFromPretrained string "string option" dtype
  | PipelineInit string int
  | Detect string
  | GeneratorCall model_params

record world =
  openai_api_key :: "string option"
  trace :: "event list"

definition emit :: "event \<Rightarrow> world \<Rightarrow> world" where
  "emit ev w = w\<lparr>trace := trace w @ [ev]\<rparr>"

section \<open>augmented/openai.py\<close>

text \<open>
  The collaborators of \<open>OpenAIAug\<close>: \<open>embeddings_create\<close> is
  \<open>model.embeddings.create(input, model)\<close> and answers with the list of
  \<open>response.data[i].embedding\<close>; \<open>db_embed\<close> and \<open>db_search\<close> are the two methods of
  the vector database, whose own state has the type \<open>'db\<close>.
\<close>

record 'db openai_env =
  embeddings_create :: "string list \<Rightarrow> string \<Rightarrow> py_error + real list list"
  db_embed :: "'db \<Rightarrow> real list list \<Rightarrow> py_error + 'db"
  db_search :: "'db \<Rightarrow> real list list \<Rightarrow> int \<Rightarrow> py_error + (real list \<times> int list)"

datatype openai_client = OpenAI string

datatype search_log =
    LogIndices "int list"
  | LogScores "real list"
  | LogSearchParams "real list list" int

text \<open>The instance. \<open>db = None\<close> stands for an attribute that is missing or falsy,
  \<open>top_k = None\<close> and \<open>api_key = None\<close> for a value that is \<open>None\<close>.\<close>

record 'db OpenAIAug =
  api_key :: "string option"
  model_name :: string
  model :: "openai_client option"
  top_k :: "int option"
  db :: "'db option"
  logs :: "string \<rightharpoonup> search_log"

definition default_model_name :: string where
  "default_model_name = ''text-embedding-3-small''"

definition default_top_k :: int where
  "default_top_k = 2"

definition OpenAIAug_setup ::
  "'db OpenAIAug \<Rightarrow> world \<Rightarrow> (py_error + unit) \<times> 'db OpenAIAug \<times> world" where
  "OpenAIAug_setup self w =
     (if \<not> truthy_opt_str (api_key self)
      then (Inl (ValueError ''API key for OpenAI is required.''), self, w)
      else
        let k = the (api_key self);
            w1 = w\<lparr>openai_api_key := api_key self\<rparr>;
            self1 = self\<lparr>model_name :=
                      (if truthy_str (model_name self) then model_name self
                       else default_model_name)\<rparr>;
            w2 = emit (OpenAIClientInit k) w1
        in (Inr (), self1\<lparr>model := Some (OpenAI k)\<rparr>, w2))"

text \<open>\<open>get_embedding\<close>: one call of the provider with the whole batch; of the response
  only \<open>data[0]\<close> is read, and \<open>reshape(1, size)\<close> makes it the single row of a matrix.\<close>

definition reshape_1 :: "real list \<Rightarrow> real list list" where
  "reshape_1 result = [result]"

definition shape :: "real list list \<Rightarrow> nat \<times> nat" where
  "shape m = (length m, (case m of [] \<Rightarrow> 0 | r # _ \<Rightarrow> length r))"

definition get_embedding ::
  "'db openai_env \<Rightarrow> 'db OpenAIAug \<Rightarrow> string list \<Rightarrow> world
     \<Rightarrow> (py_error + real list list) \<times> world" where
  "get_embedding env self content w =
     (case model self of
        None \<Rightarrow> (Inl AttributeError, w)
      | Some client \<Rightarrow>
          let w1 = emit (EmbeddingsCreate content (model_name self)) w in
          (case embeddings_create env content (model_name self) of
             Inl e \<Rightarrow> (Inl e, w1)
           | Inr data \<Rightarrow>
               (case getitem data 0 of
                  Inl e \<Rightarrow> (Inl e, w1)
                | Inr embedding \<Rightarrow> (Inr (reshape_1 embedding), w1))))"

text \<open>\<open>top_k or self.top_k or self.default_top_k or 1\<close>.\<close>

definition resolve_top_k :: "int \<Rightarrow> int option \<Rightarrow> int \<Rightarrow> int" where
  "resolve_top_k k self_top_k dflt =
     (if truthy_int k then k
      else if truthy_opt_int self_top_k then the self_top_k
      else if truthy_int dflt then dflt
      else 1)"

text \<open>The cascade in the words of the specification: of the candidates, in their order,
  the first one that is set and not zero.\<close>

fun first_nonzero :: "int option list \<Rightarrow> int option" where
  "first_nonzero [] = None"
| "first_nonzero (None # rest) = first_nonzero rest"
| "first_nonzero (Some n # rest) = (if n \<noteq> 0 then Some n else first_nonzero rest)"

text \<open>\<open>[documents[i] for i in indices]\<close>: the first subscript that raises ends the
  comprehension.\<close>

fun retrieved_docs :: "string list \<Rightarrow> int list \<Rightarrow> py_error + string list" where
  "retrieved_docs documents [] = Inr []"
| "retrieved_docs documents (i # rest) =
     (case getitem documents i of
        Inl e \<Rightarrow> Inl e
      | Inr d \<Rightarrow>
          (case retrieved_docs documents rest of
             Inl e \<Rightarrow> Inl e
           | Inr ds \<Rightarrow> Inr (d # ds)))"

definition search ::
  "'db openai_env \<Rightarrow> 'db OpenAIAug \<Rightarrow> string \<Rightarrow> string list \<Rightarrow> int \<Rightarrow> world
     \<Rightarrow> (py_error + string list) \<times> 'db OpenAIAug \<times> world" where
  "search env self query documents k w =
     (case db self of
        None \<Rightarrow> (Inl (PyException ''Vector database (db) is not initialized.''), self, w)
      | Some d \<Rightarrow>
          (case get_embedding env self documents w of
             (Inl e, w1) \<Rightarrow> (Inl e, self, w1)
           | (Inr document_encoded, w1) \<Rightarrow>
               (case get_embedding env self [query] w1 of
                  (Inl e, w2) \<Rightarrow> (Inl e, self, w2)
                | (Inr query_encoded, w2) \<Rightarrow>
                    let k' = resolve_top_k k (top_k self) default_top_k;
                        w3 = emit (DbEmbed document_encoded) w2
                    in
                    (case db_embed env d document_encoded of
                       Inl e \<Rightarrow> (Inl e, self, w3)
                     | Inr d' \<Rightarrow>
                         let self1 = self\<lparr>db := Some d'\<rparr>;
                             w4 = emit (DbSearch query_encoded k') w3
                         in
                         (case db_search env d' query_encoded k' of
                            Inl e \<Rightarrow> (Inl e, self1, w4)
                          | Inr (scores, indices) \<Rightarrow>
                              (case retrieved_docs documents indices of
                                 Inl e \<Rightarrow> (Inl e, self1, w4)
                               | Inr docs \<Rightarrow>
                                   (Inr docs,
                                    self1\<lparr>logs := (logs self1)
                                      (''indices'' \<mapsto> LogIndices indices,
                                       ''scores'' \<mapsto> LogScores scores,
                                       ''search_params'' \<mapsto>
                                          LogSearchParams query_encoded k')\<rparr>,
                                    w4)))))))"

subsection \<open>Stub collaborators and instances for concrete runs\<close>

text \<open>
  A vector database stub whose state is the list of positions it will answer with, best
  first, and an embedding provider stub that is deterministic in its input.
\<close>

definition stub_openai_env :: "int list openai_env" where
  "stub_openai_env =
     \<lparr>embeddings_create = (\<lambda>content name. Inr (map (\<lambda>t. [real (length t)]) content)),
      db_embed = (\<lambda>d vectors. Inr d),
      db_search = (\<lambda>d q k. Inr (map (\<lambda>i. 1) (take (nat k) d), take (nat k) d))\<rparr>"

definition stub_aug :: "int list option \<Rightarrow> int option \<Rightarrow> int list OpenAIAug" where
  "stub_aug d k =
     \<lparr>api_key = Some ''sk-test'', model_name = default_model_name,
      model = Some (OpenAI ''sk-test''), top_k = k, db = d, logs = Map.empty\<rparr>"

definition new_aug :: "string option \<Rightarrow> int list OpenAIAug" where
  "new_aug key =
     \<lparr>api_key = key, model_name = [], model = None, top_k = None, db = None,
      logs = Map.empty\<rparr>"

definition world0 :: world where
  "world0 = \<lparr>openai_api_key = None, trace = []\<rparr>"

section \<open>generation/llama.py\<close>

text \<open>
  The collaborators of \<open>LlamaGen\<close>: the two \<open>from_pretrained\<close> loaders and
  \<open>pipeline\<close> of transformers, \<open>detect\<close> of langdetect, the call of the pipeline
  object, and \<open>str.format\<close> of the Python library, which is taken as it is
  (template, query, context). A loaded model and a pipeline are handles; the tokenizer
  is the object whose \<open>lang_code\<close> the adapter assigns.
\<close>

record tokenizer =
  lang_code :: "string option"
  eos_token_id :: "int option"

datatype causal_lm = CausalLM string dtype

datatype text_pipeline = TextPipeline causal_lm int

record llama_env =
  tokenizer_from_pretrained :: "string \<Rightarrow> string option \<Rightarrow> py_error + tokenizer"
  model_from_pretrained :: "string \<Rightarrow> string option \<Rightarrow> dtype \<Rightarrow> py_error + causal_lm"
  pipeline :: "string \<Rightarrow> causal_lm \<Rightarrow> tokenizer \<Rightarrow> int \<Rightarrow> py_error + text_pipeline"
  str_format :: "string \<Rightarrow> string \<Rightarrow> string \<Rightarrow> py_error + string"
  detect :: "string \<Rightarrow> py_error + string"
  generator_call ::
    "text_pipeline \<Rightarrow> tokenizer \<Rightarrow> model_params \<Rightarrow> py_error + (string \<rightharpoonup> string) list"

text \<open>The instance; \<open>None\<close> in \<open>tokenizer\<close>, \<open>model\<close> and \<open>generator\<close> is the
  attribute before \<open>_setup\<close> has assigned it.\<close>

record LlamaGen =
  api_key :: "string option"
  model_name :: string
  device_name :: string
  temperature :: real
  output_max_length :: int
  prompt_template :: string
  tokenizer :: "tokenizer option"
  model :: "causal_lm option"
  generator :: "text_pipeline option"
  logs :: "string \<rightharpoonup> model_params"

definition LlamaGen_validate :: "LlamaGen \<Rightarrow> py_error + unit" where
  "LlamaGen_validate self =
     (if \<not> startswith (model_name self) ''meta-llama/''
      then Inl (PyException
             (''The given model name '' @ model_name self @ '' is not provided by meta.''))
      else Inr ())"

definition LlamaGen_setup ::
  "llama_env \<Rightarrow> LlamaGen \<Rightarrow> world \<Rightarrow> (py_error + unit) \<times> LlamaGen \<times> world" where
  "LlamaGen_setup env self w =
     (let w1 = emit (TokenizerFromPretrained (model_name self) (api_key self)) w in
      case tokenizer_from_pretrained env (model_name self) (api_key self) of
        Inl e \<Rightarrow> (Inl e, self, w1)
      | Inr tok \<Rightarrow>
          let self1 = self\<lparr>tokenizer := Some tok\<rparr>;
              dt = (if device_name self = ''cuda'' then Float16 else Float32);
              w2 = emit (ModelFromPretrained (model_name self) (api_key self) dt) w1
          in
          (case model_from_pretrained env (model_name self) (api_key self) dt of
             Inl e \<Rightarrow> (Inl e, self1, w2)
           | Inr m \<Rightarrow>
               let self2 = self1\<lparr>model := Some m\<rparr>;
                   dev = (if device_name self = ''cuda'' then 0 else - 1);
                   w3 = emit (PipelineInit ''text-generation'' dev) w2
               in
               (case pipeline env ''text-generation'' m tok dev of
                  Inl e \<Rightarrow> (Inl e, self2, w3)
                | Inr g \<Rightarrow> (Inr (), self2\<lparr>generator := Some g\<rparr>, w3))))"

text \<open>The last two lines of \<open>generate\<close>:
  \<open>answer.split('Answer:')[-1].strip()\<close>.\<close>

definition answer_only :: "string \<Rightarrow> py_error + string" where
  "answer_only answer =
     (case str_split answer ''Answer:'' of
        Inl e \<Rightarrow> Inl e
      | Inr parts \<Rightarrow>
          (case getitem parts (- 1) of
             Inl e \<Rightarrow> Inl e
           | Inr part \<Rightarrow> Inr (str_strip part)))"

text \<open>The \<open>model_params\<close> dictionary built in \<open>generate\<close>.\<close>

definition generate_params :: "LlamaGen \<Rightarrow> string \<Rightarrow> tokenizer \<Rightarrow> model_params" where
  "generate_params self input_text tok =
     \<lparr>text_inputs = input_text,
      max_new_tokens = output_max_length self,
      do_sample = True,
      mp_temperature = temperature self,
      mp_top_k = 50,
      top_p = 95 / 100,
      num_return_sequences = 1,
      mp_eos_token_id = eos_token_id tok\<rparr>"

text \<open>\<open>str(detect(query)) or 'en'\<close>, once \<open>detect\<close> has returned.\<close>

definition language_or_en :: "string \<Rightarrow> string" where
  "language_or_en detected = (if truthy_str detected then detected else ''en'')"

definition generate ::
  "llama_env \<Rightarrow> LlamaGen \<Rightarrow> string \<Rightarrow> string list \<Rightarrow> world
     \<Rightarrow> (py_error + string) \<times> LlamaGen \<times> world" where
  "generate env self query context w =
     (case str_format env (prompt_template self) query (str_join '' '' context) of
        Inl e \<Rightarrow> (Inl e, self, w)
      | Inr input_text \<Rightarrow>
          let w1 = emit (Detect query) w in
          (case detect env query of
             Inl e \<Rightarrow> (Inl e, self, w1)
           | Inr detected \<Rightarrow>
               let language = language_or_en detected in
               (case tokenizer self of
                  None \<Rightarrow> (Inl AttributeError, self, w1)
                | Some tok \<Rightarrow>
                    let tok1 = tok\<lparr>lang_code := Some language\<rparr>;
                        self1 = self\<lparr>tokenizer := Some tok1\<rparr>;
                        params = generate_params self1 input_text tok1
                    in
                    (case generator self1 of
                       None \<Rightarrow> (Inl AttributeError, self1, w1)
                     | Some g \<Rightarrow>
                         let w2 = emit (GeneratorCall params) w1 in
                         (case generator_call env g tok1 params of
                            Inl e \<Rightarrow> (Inl e, self1, w2)
                          | Inr response \<Rightarrow>
                              let self2 = self1\<lparr>logs := (logs self1)
                                            (''model_params'' \<mapsto> params)\<rparr>
                              in
                              (case getitem response 0 of
                                 Inl e \<Rightarrow> (Inl e, self2, w2)
                               | Inr first \<Rightarrow>
                                   let answer = (case first ''generated_text'' of
                                                   None \<Rightarrow> []
                                                 | Some t \<Rightarrow> t)
                                   in
                                   (case answer_only answer of
                                      Inl e \<Rightarrow> (Inl e, self2, w2)
                                    | Inr a \<Rightarrow> (Inr a, self2, w2))))))))"

section \<open>Stub collaborators and instances of the generator for concrete runs\<close>

text \<open>A formatter stub that knows the two named fields and nothing else of the format
  mini-language.\<close>

function fill_fields :: "string \<Rightarrow> string \<Rightarrow> string \<Rightarrow> string" where
  "fill_fields [] q c = []"
| "fill_fields (x # xs) q c =
     (if prefix ''{query}'' (x # xs) then q @ fill_fields (drop 7 (x # xs)) q c
      else if prefix ''{context}'' (x # xs) then c @ fill_fields (drop 9 (x # xs)) q c
      else x # fill_fields xs q c)"
  by pat_completeness auto
termination
  by (relation "measure (\<lambda>(t, q, c). length t)") auto

definition stub_tokenizer :: tokenizer where
  "stub_tokenizer = \<lparr>lang_code = None, eos_token_id = Some 128001\<rparr>"

text \<open>The stub is told what the detector answers and which text the pipeline generates.\<close>

definition stub_llama_env :: "py_error + string \<Rightarrow> string \<Rightarrow> llama_env" where
  "stub_llama_env detected text =
     \<lparr>tokenizer_from_pretrained = (\<lambda>name token. Inr stub_tokenizer),
      model_from_pretrained = (\<lambda>name token dt. Inr (CausalLM name dt)),
      pipeline = (\<lambda>task m tok dev. Inr (TextPipeline m dev)),
      str_format = (\<lambda>template q c. Inr (fill_fields template q c)),
      detect = (\<lambda>q. detected),
      generator_call = (\<lambda>g tok p. Inr [[''generated_text'' \<mapsto> text]])\<rparr>"

definition new_gen :: "string option \<Rightarrow> string \<Rightarrow> LlamaGen" where
  "new_gen key name =
     \<lparr>api_key = key, model_name = name, device_name = ''cpu'', temperature = 1 / 2,
      output_max_length = 500,
      prompt_template = ''{context} Question: {query} Answer:'',
      tokenizer = None, model = None, generator = None, logs = Map.empty\<rparr>"

definition stub_gen :: LlamaGen where
  "stub_gen =
     (new_gen (Some ''hf-test'') ''meta-llama/Llama-3.2-1B'')
       \<lparr>tokenizer := Some stub_tokenizer,
        model := Some (CausalLM ''meta-llama/Llama-3.2-1B'' Float32),
        generator := Some (TextPipeline (CausalLM ''meta-llama/Llama-3.2-1B'' Float32) (- 1))\<rparr>"

section \<open>Splitting on the marker\<close>

lemma split_from_not_Nil: "split_from sep acc s \<noteq> []"
  by (induction sep acc s rule: split_from.induct) auto

lemma split_from_no_match:
  "\<not> sublist sep s \<Longrightarrow> split_from sep acc s = [rev acc @ s]"
proof (induction s arbitrary: acc)
  case Nil
  then show ?case by simp
next
  case (Cons c cs)
  from Cons.prems have np: "\<not> prefix sep (c # cs)" and ns: "\<not> sublist sep cs"
    by (auto simp: sublist_Cons_right)
  from Cons.IH [OF ns, of "c # acc"] np show ?case by simp
qed

text \<open>The marker cannot overlap itself: it starts with the only \<open>A\<close> it has.\<close>

lemma marker_unbordered:
  assumes "prefix ''Answer:'' (pre @ ''Answer:'' @ suf)"
  shows "pre = [] \<or> 7 \<le> length pre"
proof (rule ccontr)
  assume "\<not> (pre = [] \<or> 7 \<le> length pre)"
  then have k: "0 < length pre" "length pre < 7" by auto
  have "(pre @ ''Answer:'' @ suf) ! length pre = CHR ''A''"
    by (simp add: nth_append)
  moreover have "(pre @ ''Answer:'' @ suf) ! length pre = ''Answer:'' ! length pre"
  proof -
    from assms obtain zs where "pre @ ''Answer:'' @ suf = ''Answer:'' @ zs"
      by (auto simp: prefix_def)
    then have "(pre @ ''Answer:'' @ suf) ! length pre = (''Answer:'' @ zs) ! length pre"
      by simp
    also from k have "\<dots> = ''Answer:'' ! length pre"
      by (simp only: nth_append) simp
    finally show ?thesis .
  qed
  ultimately have "''Answer:'' ! length pre = CHR ''A''" by simp
  with k show False
    by (auto simp: nth_Cons' split: if_splits)
qed

text \<open>For a separator that cannot overlap itself, the last piece is what follows the
  last occurrence.\<close>

lemma split_from_last_sep:
  "s = pre @ sep @ suf \<Longrightarrow> \<not> sublist sep suf
     \<Longrightarrow> \<forall>p z. prefix sep (p @ sep @ z) \<longrightarrow> p = [] \<or> length sep \<le> length p
     \<Longrightarrow> sep \<noteq> []
     \<Longrightarrow> last (split_from sep acc s) = suf"
proof (induction sep acc s arbitrary: pre rule: split_from.induct)
  case (1 sep acc)
  then show ?case by simp
next
  case (2 sep acc c cs)
  show ?case
  proof (cases "prefix sep (c # cs)")
    case True
    with "2.prems"(1) have "prefix sep (pre @ sep @ suf)" by simp
    with "2.prems"(3) have "pre = [] \<or> length sep \<le> length pre"
      by blast
    then show ?thesis
    proof
      assume "pre = []"
      with "2.prems"(1) have "drop (length sep) (c # cs) = suf" by simp
      with True "2.prems"(2,4) show ?thesis
        by (simp add: split_from_no_match del: drop_Suc_Cons)
    next
      assume long: "length sep \<le> length pre"
      from True obtain zs where zs: "c # cs = sep @ zs"
        by (auto simp: prefix_def)
      with "2.prems"(1) have "take (length sep) (pre @ sep @ suf) = take (length sep) (sep @ zs)"
        by simp
      with long have "take (length sep) pre = sep" by simp
      then have "pre = sep @ drop (length sep) pre"
        by (metis append_take_drop_id)
      then obtain pre' where pre': "pre = sep @ pre'" ..
      with "2.prems"(1) have d: "drop (length sep) (c # cs) = pre' @ sep @ suf"
        by simp
      from True "2.prems"(4) have "sep \<noteq> [] \<and> prefix sep (c # cs)" by simp
      then have "last (split_from sep [] (drop (length sep) (c # cs))) = suf"
        using "2.IH"(1) [OF _ d "2.prems"(2,3,4)] by simp
      with True "2.prems"(4) show ?thesis
        by (simp add: split_from_not_Nil del: drop_Suc_Cons)
    qed
  next
    case False
    with "2.prems"(1) have "pre \<noteq> []" by auto
    with "2.prems"(1) obtain pre' where cs: "cs = pre' @ sep @ suf"
      by (cases pre) auto
    from False have "\<not> (sep \<noteq> [] \<and> prefix sep (c # cs))" by simp
    from "2.IH"(2) [OF this cs "2.prems"(2,3,4)] False show ?thesis by simp
  qed
qed

lemma split_from_last_marker:
  "\<not> sublist ''Answer:'' suf
     \<Longrightarrow> last (split_from ''Answer:'' acc (pre @ ''Answer:'' @ suf)) = suf"
proof (rule split_from_last_sep [where pre = pre])
  show "\<forall>p z. prefix ''Answer:'' (p @ ''Answer:'' @ z) \<longrightarrow> p = [] \<or> length ''Answer:'' \<le> length p"
  proof (intro allI impI)
    fix p z assume "prefix ''Answer:'' (p @ ''Answer:'' @ z)"
    then have "p = [] \<or> 7 \<le> length p" by (rule marker_unbordered)
    moreover have "length ''Answer:'' = 7" by simp
    ultimately show "p = [] \<or> length ''Answer:'' \<le> length p" by (simp only:)
  qed
qed simp_all

lemma getitem_last: "xs \<noteq> [] \<Longrightarrow> getitem xs (- 1) = Inr (last xs)"
  by (cases xs rule: rev_cases) (auto simp: getitem_def nth_append)

lemma answer_only_no_marker:
  "\<not> sublist ''Answer:'' t \<Longrightarrow> answer_only t = Inr (str_strip t)"
  by (simp add: answer_only_def str_split_def split_from_no_match getitem_def)

lemma answer_only_last_marker:
  "\<not> sublist ''Answer:'' suf \<Longrightarrow> answer_only (pre @ ''Answer:'' @ suf) = Inr (str_strip suf)"
  using split_from_last_marker [of suf "[]" pre]
  by (simp add: answer_only_def str_split_def getitem_last split_from_not_Nil)

section \<open>Answer extraction in \<open>generate\<close>\<close>

lemma generate_reaches_extraction:
  assumes "str_format env (prompt_template self) query (str_join '' '' context) = Inr input_text"
    and "detect env query = Inr detected"
    and "tokenizer self = Some tok"
    and "generator self = Some g"
    and "tok1 = tok\<lparr>lang_code := Some (language_or_en detected)\<rparr>"
    and "generator_call env g tok1
           (generate_params (self\<lparr>tokenizer := Some tok1\<rparr>) input_text tok1) = Inr (first # others)"
    and "answer = (case first ''generated_text'' of None \<Rightarrow> [] | Some t \<Rightarrow> t)"
  shows "fst (generate env self query context w) = answer_only answer"
  using assms
  by (simp add: generate_def Let_def getitem_def split: sum.splits)

lemma stub_run:
  "str_format (stub_llama_env d t) (prompt_template stub_gen) q (str_join '' '' c)
     = Inr (fill_fields (prompt_template stub_gen) q (str_join '' '' c))"
  "detect (stub_llama_env d t) q = d"
  "tokenizer stub_gen = Some stub_tokenizer"
  "generator stub_gen = Some (TextPipeline (CausalLM ''meta-llama/Llama-3.2-1B'' Float32) (- 1))"
  "generator_call (stub_llama_env d t) g tk p = Inr [[''generated_text'' \<mapsto> t]]"
  by (simp_all add: stub_llama_env_def stub_gen_def new_gen_def)

text \<open>\<open>str_strip\<close> trims, and what it returns is the only trimmed form.\<close>

lemma isspace_codes: "isspace c \<longleftrightarrow> (of_char c :: nat) \<in> whitespace_codes"
  unfolding isspace_def whitespace_codes_def Let_def by auto

lemma str_strip_trimmed: "trimmed_of (str_strip s) s"
proof -
  define l where "l = takeWhile isspace s"
  define m where "m = dropWhile isspace s"
  define r where "r = rev (dropWhile isspace (rev m))"
  define t where "t = rev (takeWhile isspace (rev m))"
  have s: "s = l @ m" by (simp add: l_def m_def)
  have "rev (takeWhile isspace (rev m) @ dropWhile isspace (rev m)) = m"
    by (simp only: takeWhile_dropWhile_id rev_rev_ident)
  then have m: "m = r @ t"
    by (simp only: rev_append r_def t_def)
  have r: "str_strip s = r" by (simp add: str_strip_def r_def m_def)
  have wl: "\<forall>c\<in>set l. isspace c"
    by (auto simp: l_def dest: set_takeWhileD)
  have wt: "\<forall>c\<in>set t. isspace c"
    by (auto simp: t_def dest: set_takeWhileD)
  have ends: "r = [] \<or> (\<not> isspace (hd r) \<and> \<not> isspace (last r))"
  proof (cases "r = []")
    case True
    then show ?thesis by simp
  next
    case False
    then have d: "dropWhile isspace (rev m) \<noteq> []" by (simp add: r_def)
    then have "\<not> isspace (hd (dropWhile isspace (rev m)))" by (rule hd_dropWhile)
    with d have la: "\<not> isspace (last r)" by (simp add: r_def last_rev)
    from False m have "m \<noteq> []" by simp
    then have "\<not> isspace (hd m)" unfolding m_def by (rule hd_dropWhile)
    with False m have "\<not> isspace (hd r)" by simp
    with la show ?thesis by simp
  qed
  from s m have "s = l @ r @ t" by simp
  with wl wt ends show ?thesis
    unfolding trimmed_of_def r isspace_codes by blast
qed

lemma trimmed_of_unique:
  assumes "trimmed_of r s"
  shows "r = str_strip s"
proof -
  from assms obtain l t where s: "s = l @ r @ t"
    and wl: "\<forall>c\<in>set l. isspace c" and wt: "\<forall>c\<in>set t. isspace c"
    and ends: "r = [] \<or> (\<not> isspace (hd r) \<and> \<not> isspace (last r))"
    unfolding trimmed_of_def isspace_codes by blast
  show ?thesis
  proof (cases "r = []")
    case True
    with s wl wt have "\<forall>c\<in>set s. isspace c" by auto
    then have d: "dropWhile isspace s = []" by simp
    have "str_strip s = []" unfolding str_strip_def d by simp
    with True show ?thesis by simp
  next
    case False
    with ends have h: "\<not> isspace (hd r)" and la: "\<not> isspace (last r)" by simp_all
    from wl have "dropWhile isspace (l @ r @ t) = dropWhile isspace (r @ t)"
      by (simp add: dropWhile_append2)
    also from False h have "\<dots> = r @ t"
      by (cases r) simp_all
    finally have d1: "dropWhile isspace s = r @ t" using s by simp
    have "dropWhile isspace (rev t @ rev r) = dropWhile isspace (rev r)"
      by (rule dropWhile_append2) (use wt in auto)
    also from False la have "\<dots> = rev r"
      by (cases r rule: rev_cases) simp_all
    finally have "dropWhile isspace (rev (r @ t)) = rev r" by simp
    with d1 show ?thesis by (simp add: str_strip_def)
  qed
qed

lemma answer_only_total: "\<exists>r. answer_only t = Inr r"
  by (simp add: answer_only_def str_split_def getitem_last split_from_not_Nil)

text \<open>
  Claim C3. In \<open>generate\<close>, once the pipeline has answered, a string is returned. It is
  the generated text of the first sequence (the empty string when the field is absent)
  cut after the last literal occurrence of the marker \<open>Answer:\<close> and trimmed of
  surrounding whitespace: what follows the last marker is the returned string with
  nothing but whitespace before and after it, and the returned string neither starts nor
  ends with whitespace. A text without the marker is returned whole, trimmed in the same
  sense.
\<close>

theorem generate_answer_extraction:
  assumes "str_format env (prompt_template self) query (str_join '' '' context) = Inr input_text"
    and "detect env query = Inr detected"
    and "tokenizer self = Some tok"
    and "generator self = Some g"
    and "tok1 = tok\<lparr>lang_code := Some (language_or_en detected)\<rparr>"
    and "generator_call env g tok1
           (generate_params (self\<lparr>tokenizer := Some tok1\<rparr>) input_text tok1) = Inr (first # others)"
    and "answer = (case first ''generated_text'' of None \<Rightarrow> [] | Some t \<Rightarrow> t)"
  shows "\<exists>r. fst (generate env self query context w) = Inr r
           \<and> (\<not> sublist ''Answer:'' answer \<longrightarrow> trimmed_of r answer)
           \<and> (answer = pre @ ''Answer:'' @ suf \<and> \<not> sublist ''Answer:'' suf \<longrightarrow> trimmed_of r suf)"
proof -
  note run = generate_reaches_extraction [OF assms, of w]
  obtain r where r: "answer_only answer = Inr r"
    using answer_only_total by blast
  have none: "trimmed_of r answer" if "\<not> sublist ''Answer:'' answer"
  proof -
    from that have "answer_only answer = Inr (str_strip answer)"
      by (rule answer_only_no_marker)
    with r have "r = str_strip answer" by simp
    then show ?thesis by (simp only: str_strip_trimmed)
  qed
  have some: "trimmed_of r suf" if a: "answer = pre @ ''Answer:'' @ suf \<and> \<not> sublist ''Answer:'' suf"
  proof -
    from a have "answer_only (pre @ ''Answer:'' @ suf) = Inr (str_strip suf)"
      by (intro answer_only_last_marker) (rule conjunct2)
    with a have "answer_only answer = Inr (str_strip suf)"
      by (simp only:)
    with r have "r = str_strip suf" by simp
    then show ?thesis by (simp only: str_strip_trimmed)
  qed
  from run r have "fst (generate env self query context w) = Inr r" by (simp only:)
  with none some show ?thesis by blast
qed

theorem generate_answer_extraction_witness:
  "fst (generate (stub_llama_env (Inr ''fr'') (''context... Answer: Paris'')) stub_gen
          ''Capital of France?'' [''ctx''] world0) = Inr ''Paris'' \<and>
   fst (generate (stub_llama_env (Inr ''fr'') (''Paris is the capital'')) stub_gen
          ''Capital of France?'' [''ctx''] world0) = Inr ''Paris is the capital'' \<and>
   fst (generate (stub_llama_env (Inr ''fr'') (''Answer: A Answer: B'')) stub_gen
          ''Capital of France?'' [''ctx''] world0) = Inr ''B'' \<and>
   fst (generate (stub_llama_env (Inr ''fr'') (''Answer: x'' @ [CHR 0xA0])) stub_gen
          ''Capital of France?'' [''ctx''] world0) = Inr ''x''"
proof -
  have a: "fst (generate (stub_llama_env (Inr ''fr'') (''context... Answer: Paris'')) stub_gen
          ''Capital of France?'' [''ctx''] world0) = Inr ''Paris''"
  proof -
    have s: "\<not> sublist ''Answer:'' ('' Paris'')"
      by (simp add: sublist_code)
    have e: "''context... Answer: Paris'' = ''context... '' @ ''Answer:'' @ '' Paris''"
      by simp
    have g: "(case [''generated_text'' \<mapsto> ''context... Answer: Paris''] ''generated_text'' of
             None \<Rightarrow> [] | Some t \<Rightarrow> t) = ''context... Answer: Paris''"
      by simp
    have st: "str_strip ('' Paris'') = ''Paris''"
      by (simp add: str_strip_def isspace_def)
    note th = generate_answer_extraction [OF
      stub_run(1) [of "Inr ''fr''" "''context... Answer: Paris''" "''Capital of France?''" "[''ctx'']"]
      stub_run(2) stub_run(3) stub_run(4) refl stub_run(5) refl,
      where pre = "''context... ''" and suf = "'' Paris''" and w = world0]
    from th g e s
    have "\<exists>r. fst (generate (stub_llama_env (Inr ''fr'') (''context... Answer: Paris'')) stub_gen
          ''Capital of France?'' [''ctx''] world0) = Inr r \<and> trimmed_of r ('' Paris'')"
      by (simp only: simp_thms) blast?
    then obtain r where r: "fst (generate (stub_llama_env (Inr ''fr'') (''context... Answer: Paris'')) stub_gen
          ''Capital of France?'' [''ctx''] world0) = Inr r" and "trimmed_of r ('' Paris'')"
      by blast
    then have "r = str_strip ('' Paris'')" by (simp only: trimmed_of_unique)
    with r st show ?thesis by (simp only:)
  qed
  have b: "fst (generate (stub_llama_env (Inr ''fr'') (''Paris is the capital'')) stub_gen
          ''Capital of France?'' [''ctx''] world0) = Inr ''Paris is the capital''"
  proof -
    have s: "\<not> sublist ''Answer:'' (''Paris is the capital'')"
      by (simp add: sublist_code)
    have g: "(case [''generated_text'' \<mapsto> ''Paris is the capital''] ''generated_text'' of
             None \<Rightarrow> [] | Some t \<Rightarrow> t) = ''Paris is the capital''"
      by simp
    have st: "str_strip (''Paris is the capital'') = ''Paris is the capital''"
      by (simp add: str_strip_def isspace_def)
    note th = generate_answer_extraction [OF
      stub_run(1) [of "Inr ''fr''" "''Paris is the capital''" "''Capital of France?''" "[''ctx'']"]
      stub_run(2) stub_run(3) stub_run(4) refl stub_run(5) refl,
      where pre = "[]" and suf = "[]" and w = world0]
    from th g s
    have "\<exists>r. fst (generate (stub_llama_env (Inr ''fr'') (''Paris is the capital'')) stub_gen
          ''Capital of France?'' [''ctx''] world0) = Inr r \<and> trimmed_of r (''Paris is the capital'')"
      by (simp only: simp_thms) blast?
    then obtain r where r: "fst (generate (stub_llama_env (Inr ''fr'') (''Paris is the capital'')) stub_gen
          ''Capital of France?'' [''ctx''] world0) = Inr r" and "trimmed_of r (''Paris is the capital'')"
      by blast
    then have "r = str_strip (''Paris is the capital'')" by (simp only: trimmed_of_unique)
    with r st show ?thesis by (simp only:)
  qed
  have c: "fst (generate (stub_llama_env (Inr ''fr'') (''Answer: A Answer: B'')) stub_gen
          ''Capital of France?'' [''ctx''] world0) = Inr ''B''"
  proof -
    have s: "\<not> sublist ''Answer:'' ('' B'')"
      by (simp add: sublist_code)
    have e: "''Answer: A Answer: B'' = ''Answer: A '' @ ''Answer:'' @ '' B''"
      by simp
    have g: "(case [''generated_text'' \<mapsto> ''Answer: A Answer: B''] ''generated_text'' of
             None \<Rightarrow> [] | Some t \<Rightarrow> t) = ''Answer: A Answer: B''"
      by simp
    have st: "str_strip ('' B'') = ''B''"
      by (simp add: str_strip_def isspace_def)
    note th = generate_answer_extraction [OF
      stub_run(1) [of "Inr ''fr''" "''Answer: A Answer: B''" "''Capital of France?''" "[''ctx'']"]
      stub_run(2) stub_run(3) stub_run(4) refl stub_run(5) refl,
      where pre = "''Answer: A ''" and suf = "'' B''" and w = world0]
    from th g e s
    have "\<exists>r. fst (generate (stub_llama_env (Inr ''fr'') (''Answer: A Answer: B'')) stub_gen
          ''Capital of France?'' [''ctx''] world0) = Inr r \<and> trimmed_of r ('' B'')"
      by (simp only: simp_thms) blast?
    then obtain r where r: "fst (generate (stub_llama_env (Inr ''fr'') (''Answer: A Answer: B'')) stub_gen
          ''Capital of France?'' [''ctx''] world0) = Inr r" and "trimmed_of r ('' B'')"
      by blast
    then have "r = str_strip ('' B'')" by (simp only: trimmed_of_unique)
    with r st show ?thesis by (simp only:)
  qed
  have d: "fst (generate (stub_llama_env (Inr ''fr'') (''Answer: x'' @ [CHR 0xA0])) stub_gen
          ''Capital of France?'' [''ctx''] world0) = Inr ''x''"
  proof -
    have s: "\<not> sublist ''Answer:'' ('' x'' @ [CHR 0xA0])"
      by (simp add: sublist_code)
    have e: "''Answer: x'' @ [CHR 0xA0] = [] @ ''Answer:'' @ '' x'' @ [CHR 0xA0]"
      by simp
    have g: "(case [''generated_text'' \<mapsto> ''Answer: x'' @ [CHR 0xA0]] ''generated_text'' of
             None \<Rightarrow> [] | Some t \<Rightarrow> t) = ''Answer: x'' @ [CHR 0xA0]"
      by simp
    have st: "str_strip ('' x'' @ [CHR 0xA0]) = ''x''"
      by (simp add: str_strip_def isspace_def)
    note th = generate_answer_extraction [OF
      stub_run(1) [of "Inr ''fr''" "''Answer: x'' @ [CHR 0xA0]" "''Capital of France?''" "[''ctx'']"]
      stub_run(2) stub_run(3) stub_run(4) refl stub_run(5) refl,
      where pre = "[]" and suf = "'' x'' @ [CHR 0xA0]" and w = world0]
    from th g e s
    have "\<exists>r. fst (generate (stub_llama_env (Inr ''fr'') (''Answer: x'' @ [CHR 0xA0])) stub_gen
          ''Capital of France?'' [''ctx''] world0) = Inr r \<and> trimmed_of r ('' x'' @ [CHR 0xA0])"
      by (simp only: simp_thms) blast?
    then obtain r where r: "fst (generate (stub_llama_env (Inr ''fr'') (''Answer: x'' @ [CHR 0xA0])) stub_gen
          ''Capital of France?'' [''ctx''] world0) = Inr r" and "trimmed_of r ('' x'' @ [CHR 0xA0])"
      by blast
    then have "r = str_strip ('' x'' @ [CHR 0xA0])" by (simp only: trimmed_of_unique)
    with r st show ?thesis by (simp only:)
  qed
  from a b c d show ?thesis by (simp only: simp_thms)
qed

section \<open>Properties of \<open>OpenAIAug\<close>\<close>

lemma get_embedding_first:
  "OpenAIAug.model self = Some c
     \<Longrightarrow> embeddings_create env content (OpenAIAug.model_name self) = Inr (e # rest)
     \<Longrightarrow> get_embedding env self content w
           = (Inr [e], emit (EmbeddingsCreate content (OpenAIAug.model_name self)) w)"
  by (simp add: get_embedding_def getitem_def reshape_1_def)

lemma getitem_error: "getitem xs i = Inl e \<Longrightarrow> e = IndexError"
  by (auto simp: getitem_def split: if_splits)

lemma retrieved_docs_in_range:
  "\<forall>i\<in>set indices. - int (length documents) \<le> i \<and> i < int (length documents)
     \<Longrightarrow> retrieved_docs documents indices
           = Inr (map (\<lambda>i. documents ! nat (if i < 0 then int (length documents) + i else i))
                   indices)"
  by (induction indices) (auto simp: getitem_def)

lemma retrieved_docs_out_of_range:
  "\<exists>i\<in>set indices. i < - int (length documents) \<or> int (length documents) \<le> i
     \<Longrightarrow> retrieved_docs documents indices = Inl IndexError"
proof (induction indices)
  case Nil
  then show ?case by simp
next
  case (Cons i rest)
  show ?case
  proof (cases "getitem documents i")
    case (Inl e)
    then show ?thesis by (simp add: getitem_error)
  next
    case (Inr d)
    then have "- int (length documents) \<le> i \<and> i < int (length documents)"
      by (auto simp: getitem_def split: if_splits)
    with Cons.prems have "\<exists>i\<in>set rest. i < - int (length documents) \<or> int (length documents) \<le> i"
      by auto
    with Cons.IH Inr show ?thesis by simp
  qed
qed

lemma search_reaches_index:
  assumes "db self = Some d"
    and "OpenAIAug.model self = Some c"
    and "embeddings_create env documents (OpenAIAug.model_name self) = Inr (e1 # r1)"
    and "embeddings_create env [query] (OpenAIAug.model_name self) = Inr (e2 # r2)"
    and "db_embed env d [e1] = Inr d'"
    and "db_search env d' [e2] (resolve_top_k k (top_k self) default_top_k) = Inr (scores, indices)"
  shows "fst (search env self query documents k w) = retrieved_docs documents indices"
    and "retrieved_docs documents indices = Inl e
           \<Longrightarrow> OpenAIAug.logs (fst (snd (search env self query documents k w))) = OpenAIAug.logs self"
  using assms
  by (simp_all add: search_def get_embedding_first Let_def split: sum.splits)


lemma stub_aug_run:
  "db (stub_aug (Some d) k) = Some d"
  "OpenAIAug.model (stub_aug dd k) = Some (OpenAI ''sk-test'')"
  "embeddings_create stub_openai_env (t # ts) name
     = Inr ([real (length t)] # map (\<lambda>t. [real (length t)]) ts)"
  "db_embed stub_openai_env d v = Inr d"
  "db_search stub_openai_env d q n = Inr (map (\<lambda>i. 1) (take (nat n) d), take (nat n) d)"
  "top_k (stub_aug dd k) = k"
  by (simp_all add: stub_aug_def stub_openai_env_def)

text \<open>
  Claim C1. Let the document list be non-empty and \<open>0 < top_k \<le> len(documents)\<close>, let
  an index be attached and let the run reach it (the provider answers both embedding
  calls, \<open>db.embed\<close> returns). If the index answers the query for \<open>top_k\<close> with
  \<open>top_k\<close> positions that are valid offsets into the documents, then \<open>search\<close> returns
  exactly \<open>top_k\<close> strings, each one an element of the documents, namely the documents
  at the returned positions in the order of the positions.
\<close>

theorem search_returns_top_k:
  assumes "documents \<noteq> []" and "0 < k" and "k \<le> int (length documents)"
    and "db self = Some d"
    and "OpenAIAug.model self = Some c"
    and "embeddings_create env documents (OpenAIAug.model_name self) = Inr (e1 # r1)"
    and "embeddings_create env [query] (OpenAIAug.model_name self) = Inr (e2 # r2)"
    and "db_embed env d [e1] = Inr d'"
    and "db_search env d' [e2] k = Inr (scores, indices)"
    and "length indices = nat k"
    and "\<forall>i\<in>set indices. 0 \<le> i \<and> i < int (length documents)"
  shows "\<exists>docs. fst (search env self query documents k w) = Inr docs
           \<and> length docs = nat k
           \<and> set docs \<subseteq> set documents
           \<and> docs = map (\<lambda>i. documents ! nat i) indices"
proof -
  from assms(2) have k: "resolve_top_k k (top_k self) default_top_k = k"
    by (simp add: resolve_top_k_def truthy_int_def)
  from assms(11)
  have "retrieved_docs documents indices
          = Inr (map (\<lambda>i. documents ! nat (if i < 0 then int (length documents) + i else i))
                  indices)"
    by (intro retrieved_docs_in_range) auto
  also from assms(11)
  have "map (\<lambda>i. documents ! nat (if i < 0 then int (length documents) + i else i)) indices
          = map (\<lambda>i. documents ! nat i) indices"
    by (intro map_cong) auto
  finally have r: "retrieved_docs documents indices = Inr (map (\<lambda>i. documents ! nat i) indices)" .
  from assms(9) k
  have "db_search env d' [e2] (resolve_top_k k (top_k self) default_top_k) = Inr (scores, indices)"
    by simp
  from search_reaches_index(1) [OF assms(4,5,6,7,8) this, of w] r
  have "fst (search env self query documents k w) = Inr (map (\<lambda>i. documents ! nat i) indices)"
    by simp
  moreover from assms(10) have "length (map (\<lambda>i. documents ! nat i) indices) = nat k"
    by simp
  moreover from assms(11) have "set (map (\<lambda>i. documents ! nat i) indices) \<subseteq> set documents"
    by auto
  ultimately show ?thesis by blast
qed

theorem search_returns_top_k_witness:
  "fst (search stub_openai_env (stub_aug (Some [2, 0, 1]) None) ''q'' [''a'', ''b'', ''c''] 2 world0)
     = Inr [''c'', ''a'']"
proof -
  have "\<forall>i\<in>set [2, 0 :: int]. 0 \<le> i \<and> i < int (length [''a'', ''b'', ''c''])"
    by simp
  from search_returns_top_k [where documents = "[''a'', ''b'', ''c'']" and k = 2
      and self = "stub_aug (Some [2, 0, 1]) None" and env = stub_openai_env and query = "''q''"
      and w = world0 and indices = "[2, 0]",
      OF _ _ _ stub_aug_run(1) stub_aug_run(2) stub_aug_run(3) stub_aug_run(3) stub_aug_run(4) _ _ this]
  show ?thesis
    by (simp add: stub_aug_run)
qed



text \<open>
  Claim C7, amended. If the index returns some position \<open>i\<close> with
  \<open>i \<ge> len(documents)\<close> or \<open>i < -len(documents)\<close>, then \<open>search\<close> raises the
  \<open>IndexError\<close> of the list subscript (the retrieval index error of the specification)
  and writes nothing to the log.
\<close>

theorem search_position_out_of_range:
  assumes "db self = Some d"
    and "OpenAIAug.model self = Some c"
    and "embeddings_create env documents (OpenAIAug.model_name self) = Inr (e1 # r1)"
    and "embeddings_create env [query] (OpenAIAug.model_name self) = Inr (e2 # r2)"
    and "db_embed env d [e1] = Inr d'"
    and "db_search env d' [e2] (resolve_top_k k (top_k self) default_top_k) = Inr (scores, indices)"
    and "\<exists>i\<in>set indices. i < - int (length documents) \<or> int (length documents) \<le> i"
  shows "fst (search env self query documents k w) = Inl IndexError
           \<and> OpenAIAug.logs (fst (snd (search env self query documents k w))) = OpenAIAug.logs self"
proof -
  from assms(7) have r: "retrieved_docs documents indices = Inl IndexError"
    by (rule retrieved_docs_out_of_range)
  from search_reaches_index(1) [OF assms(1-6), of w] r
    search_reaches_index(2) [OF assms(1-6) r, of w]
  show ?thesis by simp
qed

theorem search_position_out_of_range_witness:
  "fst (search stub_openai_env (stub_aug (Some [0, 3]) None) ''q'' [''a'', ''b'', ''c''] 2 world0)
     = Inl IndexError
   \<and> OpenAIAug.logs (fst (snd (search stub_openai_env (stub_aug (Some [0, 3]) None) ''q''
        [''a'', ''b'', ''c''] 2 world0))) ''indices'' = None"
proof -
  have r: "resolve_top_k 2 None default_top_k = 2"
    by (simp add: resolve_top_k_def truthy_int_def)
  have "\<exists>i\<in>set [0, 3 :: int].
          i < - int (length [''a'', ''b'', ''c'']) \<or> int (length [''a'', ''b'', ''c'']) \<le> i"
    by simp
  from search_position_out_of_range [where documents = "[''a'', ''b'', ''c'']" and k = 2
      and self = "stub_aug (Some [0, 3]) None" and env = stub_openai_env and query = "''q''"
      and w = world0 and indices = "[0, 3]",
      OF stub_aug_run(1) stub_aug_run(2) stub_aug_run(3) stub_aug_run(3) stub_aug_run(4) _ this]
  show ?thesis
    by (simp add: stub_aug_run r) (simp add: stub_aug_def)
qed

text \<open>
  Claim C7 as stated fails. The index answers with the position \<open>-1\<close>, which is not an
  offset into the three documents; \<open>search\<close> raises nothing, returns the last document
  and logs the position.
\<close>

theorem search_position_out_of_range_counterexample:
  "fst (search stub_openai_env (stub_aug (Some [- 1]) None) ''q'' [''a'', ''b'', ''c''] 1 world0)
     = Inr [''c'']
   \<and> OpenAIAug.logs (fst (snd (search stub_openai_env (stub_aug (Some [- 1]) None) ''q''
        [''a'', ''b'', ''c''] 1 world0))) ''indices'' = Some (LogIndices [- 1])
   \<and> \<not> (0 \<le> (- 1 :: int) \<and> (- 1 :: int) < int (length [''a'', ''b'', ''c'']))"
  by (simp add: search_def get_embedding_def stub_aug_def stub_openai_env_def getitem_def
      reshape_1_def Let_def resolve_top_k_def truthy_int_def default_top_k_def)

text \<open>
  Claim C4. Without an attached index, \<open>search\<close> raises the exception of its first
  statement (the uninitialised-index error of the specification, in the source an
  \<open>Exception\<close> with the message below) for every query, document list and \<open>top_k\<close>;
  the instance and the world, and with it the trace of provider calls, are unchanged.
\<close>

theorem search_without_index:
  "db self = None
     \<Longrightarrow> search env self query documents k w
           = (Inl (PyException ''Vector database (db) is not initialized.''), self, w)"
  by (simp add: search_def)

theorem search_without_index_witness:
  "search stub_openai_env (stub_aug None None) ''q'' [''a'', ''b''] 0 world0
     = (Inl (PyException ''Vector database (db) is not initialized.''), stub_aug None None, world0)
   \<and> trace world0 = []"
proof -
  have "db (stub_aug None None) = None" by (simp add: stub_aug_def)
  from search_without_index [OF this, of stub_openai_env "''q''" "[''a'', ''b'']" 0 world0]
  show ?thesis by (simp add: world0_def)
qed

text \<open>
  Claim C8. \<open>get_embedding\<close> sends the whole list of texts to the provider in one call
  and returns the embedding of the first entry of the response as a matrix of shape
  \<open>(1, size)\<close>; the entries after the first do not reach the result.
\<close>

theorem get_embedding_first_only:
  "OpenAIAug.model self = Some c
     \<Longrightarrow> embeddings_create env content (OpenAIAug.model_name self) = Inr (e # rest)
     \<Longrightarrow> get_embedding env self content w
           = (Inr [e], emit (EmbeddingsCreate content (OpenAIAug.model_name self)) w)
         \<and> shape [e] = (1, length e)"
  by (simp add: get_embedding_def getitem_def reshape_1_def shape_def)

theorem get_embedding_first_only_witness:
  "fst (get_embedding stub_openai_env (stub_aug None None) [''a'', ''bb'', ''ccc''] world0) = Inr [[1]]
   \<and> shape [[1]] = (1, 1)"
  using get_embedding_first_only [OF stub_aug_run(2) stub_aug_run(3),
      of None None "''a''" "[''bb'', ''ccc'']" world0]
  by simp

text \<open>
  Claim C2. The \<open>top_k\<close> that \<open>search\<close> uses is the first value that is set and nonzero
  among the explicit argument, the \<open>top_k\<close> of the instance, the default of the class and
  the constant 1. With the argument 0 and no \<open>top_k\<close> on the instance it is 2, the default
  of \<open>OpenAIAug\<close>; with the argument 5 it is 5 whatever the others are. A search that
  returns documents has queried the index with this value and has logged it.
\<close>

theorem search_top_k_cascade:
  "first_nonzero [Some k, inst, Some dflt, Some 1] = Some (resolve_top_k k inst dflt)
   \<and> resolve_top_k 0 None default_top_k = 2
   \<and> resolve_top_k 5 inst dflt = 5
   \<and> (fst (search env self query documents k w) = Inr docs \<longrightarrow>
        (\<exists>q. last (trace (snd (snd (search env self query documents k w))))
               = DbSearch q (resolve_top_k k (top_k self) default_top_k)
           \<and> OpenAIAug.logs (fst (snd (search env self query documents k w))) ''search_params''
               = Some (LogSearchParams q (resolve_top_k k (top_k self) default_top_k))))"
proof (intro conjI impI)
  show "first_nonzero [Some k, inst, Some dflt, Some 1] = Some (resolve_top_k k inst dflt)"
    by (cases inst) (simp_all add: resolve_top_k_def truthy_int_def)
  show "resolve_top_k 0 None default_top_k = 2"
    by (simp add: resolve_top_k_def truthy_int_def default_top_k_def)
  show "resolve_top_k 5 inst dflt = 5"
    by (simp add: resolve_top_k_def truthy_int_def)
next
  assume "fst (search env self query documents k w) = Inr docs"
  then show "\<exists>q. last (trace (snd (snd (search env self query documents k w))))
               = DbSearch q (resolve_top_k k (top_k self) default_top_k)
           \<and> OpenAIAug.logs (fst (snd (search env self query documents k w))) ''search_params''
               = Some (LogSearchParams q (resolve_top_k k (top_k self) default_top_k))"
    by (auto simp: search_def Let_def emit_def split: option.splits sum.splits prod.splits)
qed

theorem search_top_k_cascade_witness:
  "fst (search stub_openai_env (stub_aug (Some [1, 0, 2]) None) ''q'' [''a'', ''b'', ''c''] 0 world0)
     = Inr [''b'', ''a'']
   \<and> (case last (trace (snd (snd (search stub_openai_env (stub_aug (Some [1, 0, 2]) None) ''q''
          [''a'', ''b'', ''c''] 0 world0)))) of
        DbSearch q n \<Rightarrow> n = 2
      | _ \<Rightarrow> False)"
proof -
  have run: "fst (search stub_openai_env (stub_aug (Some [1, 0, 2]) None) ''q''
                [''a'', ''b'', ''c''] 0 world0) = Inr [''b'', ''a'']"
    by (simp add: search_def get_embedding_def stub_aug_def stub_openai_env_def getitem_def
      reshape_1_def Let_def resolve_top_k_def truthy_int_def default_top_k_def)
  note th = search_top_k_cascade [of 0 None 2 stub_openai_env "stub_aug (Some [1, 0, 2]) None"
      "''q''" "[''a'', ''b'', ''c'']" world0 "[''b'', ''a'']"]
  from th have two: "resolve_top_k 0 None default_top_k = 2" by (simp only:)
  from th run
  obtain q where "last (trace (snd (snd (search stub_openai_env (stub_aug (Some [1, 0, 2]) None) ''q''
        [''a'', ''b'', ''c''] 0 world0))))
      = DbSearch q (resolve_top_k 0 (top_k (stub_aug (Some [1, 0, 2]) None)) default_top_k)"
    by blast
  with two have "last (trace (snd (snd (search stub_openai_env (stub_aug (Some [1, 0, 2]) None) ''q''
        [''a'', ''b'', ''c''] 0 world0)))) = DbSearch q 2"
    by (simp add: stub_aug_run)
  with run show ?thesis by simp
qed

section \<open>Properties of \<open>LlamaGen\<close>\<close>

text \<open>
  Claim C9. \<open>_validate\<close> accepts exactly the model names that start with
  \<open>meta-llama/\<close>; for every other name it raises the exception whose message names the
  model (the configuration error of the specification, in the source an \<open>Exception\<close>).
\<close>

theorem validate_model_family:
  "(\<not> (\<exists>rest. model_name self = ''meta-llama/'' @ rest) \<longrightarrow>
      LlamaGen_validate self
        = Inl (PyException
             (''The given model name '' @ model_name self @ '' is not provided by meta.'')))
   \<and> ((\<exists>rest. model_name self = ''meta-llama/'' @ rest) \<longrightarrow> LlamaGen_validate self = Inr ())"
  by (simp only: LlamaGen_validate_def startswith_def prefix_def) simp

theorem validate_model_family_witness:
  "LlamaGen_validate (new_gen (Some ''hf-test'') ''gpt2'')
     = Inl (PyException ''The given model name gpt2 is not provided by meta.'')
   \<and> LlamaGen_validate (new_gen (Some ''hf-test'') ''meta-llama/Llama-3.2-1B'') = Inr ()"
proof -
  have n: "\<not> (\<exists>rest. model_name (new_gen (Some ''hf-test'') ''gpt2'') = ''meta-llama/'' @ rest)"
    by (simp add: new_gen_def)
  have y: "\<exists>rest. model_name (new_gen (Some ''hf-test'') ''meta-llama/Llama-3.2-1B'')
             = ''meta-llama/'' @ rest"
    by (simp add: new_gen_def)
  from validate_model_family [of "new_gen (Some ''hf-test'') ''gpt2''"] n
  have "LlamaGen_validate (new_gen (Some ''hf-test'') ''gpt2'')
     = Inl (PyException
             (''The given model name '' @ model_name (new_gen (Some ''hf-test'') ''gpt2'')
                @ '' is not provided by meta.''))"
    by (simp only: simp_thms)
  moreover from validate_model_family [of "new_gen (Some ''hf-test'') ''meta-llama/Llama-3.2-1B''"] y
  have "LlamaGen_validate (new_gen (Some ''hf-test'') ''meta-llama/Llama-3.2-1B'') = Inr ()"
    by (simp only: simp_thms)
  ultimately show ?thesis by (simp add: new_gen_def)
qed

text \<open>
  Claim C5 as stated fails for the generator. With no API key, or with an empty one, and a
  model name of the family, \<open>_validate\<close> passes and \<open>_setup\<close> calls the tokenizer
  loader, the model loader and the pipeline constructor and returns normally.
\<close>

theorem setup_api_key_counterexample:
  "LlamaGen_validate (new_gen None ''meta-llama/Llama-3.2-1B'') = Inr ()
   \<and> fst (LlamaGen_setup (stub_llama_env (Inr ''en'') []) (new_gen None ''meta-llama/Llama-3.2-1B'')
          world0) = Inr ()
   \<and> trace (snd (snd (LlamaGen_setup (stub_llama_env (Inr ''en'') [])
          (new_gen None ''meta-llama/Llama-3.2-1B'') world0)))
       = [TokenizerFromPretrained ''meta-llama/Llama-3.2-1B'' None,
          ModelFromPretrained ''meta-llama/Llama-3.2-1B'' None Float32,
          PipelineInit ''text-generation'' (- 1)]
   \<and> LlamaGen_validate (new_gen (Some []) ''meta-llama/Llama-3.2-1B'') = Inr ()
   \<and> fst (LlamaGen_setup (stub_llama_env (Inr ''en'') []) (new_gen (Some []) ''meta-llama/Llama-3.2-1B'')
          world0) = Inr ()"
  by (simp add: LlamaGen_validate_def startswith_def LlamaGen_setup_def new_gen_def
      stub_llama_env_def world0_def emit_def Let_def)

text \<open>
  Claim C5, amended. \<open>OpenAIAug._setup\<close> with an empty or absent API key raises the
  \<open>ValueError\<close> of its first statement and leaves the instance, the module-level key and
  the trace as they were. \<open>LlamaGen\<close> does not check the key: \<open>_validate\<close> does not
  depend on it, and the first thing \<open>_setup\<close> does is to call the tokenizer loader with
  the key as it is.
\<close>

theorem setup_api_key:
  "(\<not> truthy_opt_str (OpenAIAug.api_key a) \<longrightarrow>
      OpenAIAug_setup a w = (Inl (ValueError ''API key for OpenAI is required.''), a, w))
   \<and> LlamaGen_validate (g\<lparr>api_key := key\<rparr>) = LlamaGen_validate g
   \<and> (\<exists>r g' evs. LlamaGen_setup env g w
         = (r, g', w\<lparr>trace := trace w @ TokenizerFromPretrained (model_name g) (api_key g) # evs\<rparr>))"
proof (intro conjI impI)
  assume "\<not> truthy_opt_str (OpenAIAug.api_key a)"
  then show "OpenAIAug_setup a w = (Inl (ValueError ''API key for OpenAI is required.''), a, w)"
    by (simp add: OpenAIAug_setup_def)
next
  show "LlamaGen_validate (g\<lparr>api_key := key\<rparr>) = LlamaGen_validate g"
    by (simp add: LlamaGen_validate_def)
next
  show "\<exists>r g' evs. LlamaGen_setup env g w
         = (r, g', w\<lparr>trace := trace w @ TokenizerFromPretrained (model_name g) (api_key g) # evs\<rparr>)"
    by (auto simp: LlamaGen_setup_def Let_def emit_def split: sum.splits)
qed

theorem setup_api_key_witness:
  "OpenAIAug_setup (new_aug None) world0
     = (Inl (ValueError ''API key for OpenAI is required.''), new_aug None, world0)
   \<and> OpenAIAug_setup (new_aug (Some [])) world0
     = (Inl (ValueError ''API key for OpenAI is required.''), new_aug (Some []), world0)"
proof -
  have "\<not> truthy_opt_str (OpenAIAug.api_key (new_aug None))"
    and "\<not> truthy_opt_str (OpenAIAug.api_key (new_aug (Some [])))"
    by (simp_all add: new_aug_def truthy_str_def)
  with setup_api_key [of "new_aug None" world0] setup_api_key [of "new_aug (Some [])" world0]
  show ?thesis by (simp only: simp_thms)
qed

text \<open>
  Claim C6 at a detector that raises, as langdetect does on a query without letters:
  \<open>generate\<close> fails with the detector's exception right after the call, the language
  hint of the tokenizer stays unset and the pipeline is not called. A detector that returns
  the empty string gives the hint \<open>en\<close> and an answer.
\<close>

theorem generate_detect_raises:
  "generate (stub_llama_env (Inl (External ''LangDetectException: No features in text.'')) ''Answer: x'')
       stub_gen ''12345'' [''ctx''] world0
     = (Inl (External ''LangDetectException: No features in text.''), stub_gen,
        emit (Detect ''12345'') world0)
   \<and> tokenizer stub_gen = Some stub_tokenizer
   \<and> lang_code stub_tokenizer = None
   \<and> fst (generate (stub_llama_env (Inr []) ''Answer: x'') stub_gen ''12345'' [''ctx''] world0)
       = Inr ''x''
   \<and> tokenizer (fst (snd (generate (stub_llama_env (Inr []) ''Answer: x'') stub_gen ''12345''
        [''ctx''] world0))) = Some (stub_tokenizer\<lparr>lang_code := Some ''en''\<rparr>)"
  by (simp add: generate_def stub_llama_env_def stub_gen_def new_gen_def stub_tokenizer_def
      Let_def language_or_en_def truthy_str_def getitem_def answer_only_def str_split_def
      str_strip_def isspace_def generate_params_def)

end
